theory Spec2Isabelle
  imports Complex_Main "HOL-Library.AList"
begin

section \<open>The emotion-analysis core of app.py\<close>

text \<open>
  This theory embeds the audio path of \<^verbatim>\<open>app.py\<close>: \<^verbatim>\<open>convert_audio_to_wav\<close>,
  \<^verbatim>\<open>extract_features\<close>, \<^verbatim>\<open>update_emotion_analytics\<close>, \<^verbatim>\<open>analyze_saved_file\<close> and the two
  JSON helpers. The libraries the code calls (pydub, librosa, torch, the file system) are
  not part of the repository; what they answer is a field of the record \<open>env\<close>, and
  every exception the code can see from them is a value of the type \<open>error\<close>. numpy's
  mean is a parameter of the functions that call it; the float arithmetic of Python itself
  (the product, the absolute value, \<^verbatim>\<open>int\<close>) is written out, with its rounding and its
  overflow.
\<close>

subsection \<open>Constants\<close>

definition SR :: nat where "SR = 22050"
definition N_MFCC :: nat where "N_MFCC = 40"
definition MAX_PAD_LEN :: nat where "MAX_PAD_LEN = 174"

definition EMOTION_LABELS :: "string list" where
  "EMOTION_LABELS =
     [''neutral'', ''calm'', ''happy'', ''sad'', ''angry'', ''fear'', ''disgust'', ''surprise'']"

subsection \<open>Values\<close>

type_synonym path = string

text \<open>
  A two-dimensional numpy array: its shape and its rows. numpy keeps the shape apart from
  the data, so an array with no rows still has a column count.
\<close>

record ndarray =
  shape0 :: nat
  shape1 :: nat
  rows :: "real list list"

definition wf_array :: "ndarray \<Rightarrow> bool" where
  "wf_array a \<longleftrightarrow> length (rows a) = shape0 a \<and> (\<forall>r \<in> set (rows a). length r = shape1 a)"

text \<open>The exceptions of the modelled code. \<open>LibraryError\<close> is any exception raised
  inside librosa or torch.\<close>

datatype error =
    ValueError
  | OverflowError
  | IndexError
  | ZeroDivisionError
  | AttributeError
  | TypeError
  | LibraryError

text \<open>A Python float (an IEEE 754 binary64): a finite value, which is the real number
  it denotes, an infinity or a NaN. The signs of zero and of the infinities are left out:
  the code takes the absolute value before it looks at the number.\<close>

datatype pyfloat = Finite real | Infinite | NaN

text \<open>A parsed JSON document (numbers are integers, as the counters written by this
  code are).\<close>

datatype json =
    JNull
  | JBool bool
  | JInt int
  | JStr string
  | JArr "json list"
  | JObj "(string \<times> json) list"

text \<open>What is at the path of the counter file.\<close>

datatype file_state = Missing | Unparseable | Holds json

text \<open>How \<^verbatim>\<open>open(path, 'w')\<close> followed by \<^verbatim>\<open>json.dump\<close> ends.\<close>

datatype write_outcome = Written | OpenFailed | DumpFailed

record env =
  pydub_available :: bool
    \<comment> \<open>\<^verbatim>\<open>from pydub import AudioSegment\<close> succeeds\<close>
  pydub_transcode :: "path \<Rightarrow> string option \<Rightarrow> bool"
    \<comment> \<open>\<^verbatim>\<open>AudioSegment.from_file\<close> with the given format, then \<^verbatim>\<open>export\<close>, raise nothing\<close>
  librosa_load :: "path \<Rightarrow> nat \<Rightarrow> error + (real list \<times> nat)"
  librosa_mfcc :: "real list \<Rightarrow> nat \<Rightarrow> nat \<Rightarrow> error + ndarray"
  os_remove :: "path \<Rightarrow> bool"
    \<comment> \<open>\<^verbatim>\<open>os.remove\<close> of an existing file succeeds\<close>
  model :: "(ndarray \<Rightarrow> error + int) option"
    \<comment> \<open>the global \<^verbatim>\<open>model\<close>: tensor conversion, network and arg-max, when one is loaded\<close>
  json_write :: write_outcome

record state =
  files :: "path set"
  emotion_file :: file_state

subsection \<open>Python primitives\<close>

definition lower_char :: "char \<Rightarrow> char" where
  "lower_char c =
     (let n = (of_char c :: nat) in if 65 \<le> n \<and> n \<le> 90 then char_of (n + 32) else c)"

definition lower :: "string \<Rightarrow> string" where
  "lower s = map lower_char s"

text \<open>\<^verbatim>\<open>s.split('.')\<close>: never empty.\<close>

fun split_dot :: "string \<Rightarrow> string list" where
  "split_dot [] = [[]]"
| "split_dot (c # cs) =
     (if c = CHR ''.'' then [] # split_dot cs
      else (case split_dot cs of [] \<Rightarrow> [[c]] | w # ws \<Rightarrow> (c # w) # ws))"

text \<open>\<^verbatim>\<open>s.rsplit('.', 1)[0]\<close>: what is before the last dot, the whole string when there
  is none.\<close>

definition rsplit_dot_head :: "string \<Rightarrow> string" where
  "rsplit_dot_head s =
     (if CHR ''.'' \<in> set s then rev (tl (dropWhile (\<lambda>c. c \<noteq> CHR ''.'') (rev s))) else s)"

text \<open>\<^verbatim>\<open>xs[i]\<close>: a negative index counts from the end.\<close>

definition py_index :: "'a list \<Rightarrow> int \<Rightarrow> error + 'a" where
  "py_index xs i =
     (if 0 \<le> i \<and> i < int (length xs) then Inr (xs ! nat i)
      else if - int (length xs) \<le> i \<and> i < 0 then Inr (xs ! nat (int (length xs) + i))
      else Inl IndexError)"

definition py_mod :: "int \<Rightarrow> int \<Rightarrow> error + int" where
  "py_mod a b = (if b = 0 then Inl ZeroDivisionError else Inr (a mod b))"

text \<open>Rounding a real number to the nearest binary64, ties to the even significand:
  with \<open>e\<close> the binary exponent of the number (not below \<open>-1022\<close>, where the subnormal
  numbers start) the representable numbers around it are the multiples of
  \<open>2 ^ (e - 52)\<close>; a result of magnitude \<open>2 ^ 1024\<close> or more is an infinity.\<close>

definition pow2 :: "int \<Rightarrow> real" where
  "pow2 k = (if 0 \<le> k then 2 ^ nat k else 1 / 2 ^ nat (- k))"

definition round_half_even :: "real \<Rightarrow> int" where
  "round_half_even x =
     (let f = \<lfloor>x\<rfloor>; d = x - of_int f
      in if d < 1 / 2 then f else if 1 / 2 < d then f + 1 else if even f then f else f + 1)"

definition round64 :: "real \<Rightarrow> pyfloat" where
  "round64 x =
     (if x = 0 then Finite 0
      else
        let e = max \<lfloor>log 2 \<bar>x\<bar>\<rfloor> (- 1022);
            q = pow2 (e - 52);
            r = of_int (round_half_even (x / q)) * q
        in if 2 ^ 1024 \<le> \<bar>r\<bar> then Infinite else Finite r)"

text \<open>\<^verbatim>\<open>x * k\<close> for a float \<open>x\<close> and an integer \<open>k\<close> that is a binary64 itself (100 is):
  the exact product, rounded.\<close>

definition float_mul :: "pyfloat \<Rightarrow> real \<Rightarrow> pyfloat" where
  "float_mul x k = (case x of Finite r \<Rightarrow> round64 (r * k) | Infinite \<Rightarrow> Infinite | NaN \<Rightarrow> NaN)"

definition float_abs :: "pyfloat \<Rightarrow> pyfloat" where
  "float_abs x = (case x of Finite r \<Rightarrow> Finite \<bar>r\<bar> | Infinite \<Rightarrow> Infinite | NaN \<Rightarrow> NaN)"

text \<open>\<^verbatim>\<open>int(x)\<close> truncates towards zero and raises on an infinity or a NaN.\<close>

definition py_int :: "pyfloat \<Rightarrow> error + int" where
  "py_int x =
     (case x of
        Finite r \<Rightarrow> Inr (if 0 \<le> r then \<lfloor>r\<rfloor> else \<lceil>r\<rceil>)
      | Infinite \<Rightarrow> Inl OverflowError
      | NaN \<Rightarrow> Inl ValueError)"

text \<open>\<^verbatim>\<open>np.pad(a, ((0,0),(0,pad_width)), mode='constant')\<close> and \<^verbatim>\<open>a[:, :k]\<close>.\<close>

definition np_pad_right :: "ndarray \<Rightarrow> nat \<Rightarrow> ndarray" where
  "np_pad_right a pad_width =
     a\<lparr>shape1 := shape1 a + pad_width, rows := map (\<lambda>r. r @ replicate pad_width 0) (rows a)\<rparr>"

definition np_take_cols :: "ndarray \<Rightarrow> nat \<Rightarrow> ndarray" where
  "np_take_cols a k = a\<lparr>shape1 := min (shape1 a) k, rows := map (take k) (rows a)\<rparr>"

subsection \<open>The JSON helpers\<close>

definition read_json_safe :: "file_state \<Rightarrow> json \<Rightarrow> json" where
  "read_json_safe f default_value =
     (case f of Holds j \<Rightarrow> j | Missing \<Rightarrow> default_value | Unparseable \<Rightarrow> default_value)"

definition write_json_safe :: "env \<Rightarrow> file_state \<Rightarrow> json \<Rightarrow> bool \<times> file_state" where
  "write_json_safe e f data =
     (case json_write e of
        Written \<Rightarrow> (True, Holds data)
      | OpenFailed \<Rightarrow> (False, f)
      | DumpFailed \<Rightarrow> (False, Unparseable))"

subsection \<open>convert_audio_to_wav\<close>

definition convert_audio_to_wav :: "env \<Rightarrow> path \<Rightarrow> path set \<Rightarrow> path option \<times> path set" where
  "convert_audio_to_wav e audio_path fs =
     (if \<not> pydub_available e then (None, fs)
      else
        let wav_path = rsplit_dot_head audio_path @ ''_converted.wav'';
            file_ext = last (split_dot (lower audio_path));
            fmt = (if file_ext = ''webm'' then Some ''webm''
                   else if file_ext = ''mp4'' then Some ''mp4''
                   else if file_ext = ''ogg'' then Some ''ogg''
                   else None)
        in if pydub_transcode e audio_path fmt then (Some wav_path, insert wav_path fs)
           else (None, fs))"

subsection \<open>extract_features\<close>

text \<open>Lines 99 to 104: the path that is decoded, and the files after the conversion.\<close>

definition select_source :: "env \<Rightarrow> path \<Rightarrow> path set \<Rightarrow> path \<times> path set" where
  "select_source e file_path fs =
     (let file_ext = last (split_dot (lower file_path))
      in if file_ext \<in> {''webm'', ''mp4'', ''ogg''} then
           (case convert_audio_to_wav e file_path fs of
              (Some converted_path, fs') \<Rightarrow>
                if converted_path \<noteq> [] \<and> converted_path \<in> fs' then (converted_path, fs')
                else (file_path, fs')
            | (None, fs') \<Rightarrow> (file_path, fs'))
         else (file_path, fs))"

text \<open>Lines 115 to 119.\<close>

definition fix_length :: "ndarray \<Rightarrow> nat \<Rightarrow> ndarray" where
  "fix_length mfcc max_pad_len =
     (if shape1 mfcc < max_pad_len then np_pad_right mfcc (max_pad_len - shape1 mfcc)
      else np_take_cols mfcc max_pad_len)"

text \<open>Lines 106 to 121: decoding, the empty check, the coefficients and the fixed width.\<close>

definition load_and_transform :: "env \<Rightarrow> path \<Rightarrow> nat \<Rightarrow> nat \<Rightarrow> nat \<Rightarrow> error + ndarray" where
  "load_and_transform e file_path sr n_mfcc max_pad_len =
     (case librosa_load e file_path sr of
        Inl err \<Rightarrow> Inl err
      | Inr (audio, sample_rate) \<Rightarrow>
          if length audio = 0 then Inl ValueError
          else (case librosa_mfcc e audio sample_rate n_mfcc of
                  Inl err \<Rightarrow> Inl err
                | Inr mfcc \<Rightarrow> Inr (fix_length mfcc max_pad_len)))"

text \<open>Lines 124 to 129 and 135 to 139: the removal is tried, its failure is passed over.\<close>

definition cleanup :: "env \<Rightarrow> path \<Rightarrow> path \<Rightarrow> path set \<Rightarrow> path set" where
  "cleanup e file_path original_path fs =
     (if file_path \<noteq> original_path \<and> file_path \<in> fs then
        (if os_remove e file_path then fs - {file_path} else fs)
      else fs)"

definition extract_features ::
  "env \<Rightarrow> path \<Rightarrow> nat \<Rightarrow> nat \<Rightarrow> nat \<Rightarrow> path set \<Rightarrow> (error + ndarray) \<times> path set" where
  "extract_features e file_path sr n_mfcc max_pad_len fs =
     (let original_path = file_path;
          (file_path', fs') = select_source e file_path fs
      in case load_and_transform e file_path' sr n_mfcc max_pad_len of
           Inr mfcc \<Rightarrow> (Inr mfcc, cleanup e file_path' original_path fs')
         | Inl err \<Rightarrow> (Inl err, cleanup e file_path' original_path fs'))"

subsection \<open>update_emotion_analytics\<close>

text \<open>\<^verbatim>\<open>d.get(key, default)\<close> exists on a dict only.\<close>

definition py_get :: "json \<Rightarrow> string \<Rightarrow> json \<Rightarrow> error + json" where
  "py_get d k default_value =
     (case d of
        JObj al \<Rightarrow> Inr (case map_of al k of Some v \<Rightarrow> v | None \<Rightarrow> default_value)
      | _ \<Rightarrow> Inl AttributeError)"

text \<open>\<^verbatim>\<open>v + 1\<close>: defined on numbers (a bool is one), a type error elsewhere.\<close>

definition py_add_one :: "json \<Rightarrow> error + json" where
  "py_add_one v =
     (case v of
        JInt n \<Rightarrow> Inr (JInt (n + 1))
      | JBool b \<Rightarrow> Inr (JInt ((if b then 1 else 0) + 1))
      | _ \<Rightarrow> Inl TypeError)"

text \<open>\<^verbatim>\<open>d[key] = v\<close>: a present key keeps its place, a new key goes last.\<close>

definition py_setitem :: "json \<Rightarrow> string \<Rightarrow> json \<Rightarrow> error + json" where
  "py_setitem d k v =
     (case d of
        JObj al \<Rightarrow> Inr (JObj (AList.update k v al))
      | _ \<Rightarrow> Inl TypeError)"

definition update_emotion_analytics :: "env \<Rightarrow> string \<Rightarrow> state \<Rightarrow> (error + unit) \<times> state" where
  "update_emotion_analytics e emotion st =
     (let emotion_counts = read_json_safe (emotion_file st) (JObj [])
      in case py_get emotion_counts emotion (JInt 0) of
           Inl err \<Rightarrow> (Inl err, st)
         | Inr current_count \<Rightarrow>
             (case py_add_one current_count of
                Inl err \<Rightarrow> (Inl err, st)
              | Inr v \<Rightarrow>
                  (case py_setitem emotion_counts emotion v of
                     Inl err \<Rightarrow> (Inl err, st)
                   | Inr emotion_counts' \<Rightarrow>
                       (let (ok, f') = write_json_safe e (emotion_file st) emotion_counts'
                        in (Inr (), st\<lparr>emotion_file := f'\<rparr>)))))"

subsection \<open>analyze_saved_file\<close>

text \<open>
  Lines 183 and 184: the index of the fallback branch. \<^verbatim>\<open>float(np.mean(mfcc))\<close> is numpy's:
  its summation order and the precision it accumulates in are not in the repository, so
  the function comes in as the parameter \<open>np_mean\<close>, the same at every call; it may
  answer any float, an infinity or a NaN included.
\<close>

definition fallback_index :: "(ndarray \<Rightarrow> pyfloat) \<Rightarrow> ndarray \<Rightarrow> error + int" where
  "fallback_index np_mean mfcc =
     (let mean_val = np_mean mfcc
      in case py_int (float_abs (float_mul mean_val 100)) of
           Inl err \<Rightarrow> Inl err
         | Inr k \<Rightarrow> py_mod k (int (length EMOTION_LABELS)))"

text \<open>Lines 174 to 185: the label, from the model when one is loaded.\<close>

definition classify :: "(ndarray \<Rightarrow> pyfloat) \<Rightarrow> env \<Rightarrow> ndarray \<Rightarrow> error + string" where
  "classify np_mean e mfcc =
     (case model e of
        Some net \<Rightarrow>
          (case net mfcc of
             Inl err \<Rightarrow> Inl err
           | Inr pred \<Rightarrow> py_index EMOTION_LABELS pred)
      | None \<Rightarrow>
          (case fallback_index np_mean mfcc of
             Inl err \<Rightarrow> Inl err
           | Inr idx \<Rightarrow> py_index EMOTION_LABELS idx))"

definition analyze_saved_file ::
  "(ndarray \<Rightarrow> pyfloat) \<Rightarrow> env \<Rightarrow> path \<Rightarrow> state \<Rightarrow> (error + string) \<times> state" where
  "analyze_saved_file np_mean e filepath st =
     (case extract_features e filepath SR N_MFCC MAX_PAD_LEN (files st) of
        (Inl err, fs') \<Rightarrow> (Inl err, st\<lparr>files := fs'\<rparr>)
      | (Inr mfcc, fs') \<Rightarrow>
          (case classify np_mean e mfcc of
             Inl err \<Rightarrow> (Inl err, st\<lparr>files := fs'\<rparr>)
           | Inr emotion \<Rightarrow>
               (case update_emotion_analytics e emotion (st\<lparr>files := fs'\<rparr>) of
                  (Inl err, st') \<Rightarrow> (Inl err, st')
                | (Inr u, st') \<Rightarrow> (Inr emotion, st'))))"

subsection \<open>The words of the specification\<close>

text \<open>The fallback index as the specification words it, in exact arithmetic: the mean of
  all entries, scaled by 100, its absolute value, the floor of that, modulo 8.\<close>

definition matrix_mean :: "ndarray \<Rightarrow> real" where
  "matrix_mean a = sum_list (concat (rows a)) / real (length (concat (rows a)))"

definition spec_fallback_index :: "ndarray \<Rightarrow> int" where
  "spec_fallback_index a = \<lfloor>\<bar>matrix_mean a * 100\<bar>\<rfloor> mod 8"

text \<open>A counter mapping (label to count) as a JSON document, and the file states that
  \<open>read_json_safe\<close> reads as such a mapping: a missing or unreadable file reads as the
  empty one.\<close>

definition counter_json :: "(string \<times> int) list \<Rightarrow> json" where
  "counter_json counts = JObj (map (\<lambda>(k, n). (k, JInt n)) counts)"

definition reads_as :: "file_state \<Rightarrow> (string \<times> int) list \<Rightarrow> bool" where
  "reads_as f counts \<longleftrightarrow> read_json_safe f (JObj []) = counter_json counts"

subsection \<open>A concrete environment\<close>

text \<open>
  One environment on which the definitions are evaluated: pydub converts every file,
  librosa decodes every path to two samples and gives one frame per 512 samples plus one
  (its default hop), every entry being 8.7; no model is loaded; removals and writes succeed.
\<close>

definition sample_mfcc :: "real list \<Rightarrow> nat \<Rightarrow> nat \<Rightarrow> error + ndarray" where
  "sample_mfcc audio sample_rate n_mfcc =
     Inr \<lparr>shape0 = n_mfcc, shape1 = 1 + length audio div 512,
          rows = replicate n_mfcc (replicate (1 + length audio div 512) (87 / 10))\<rparr>"

definition sample_env :: env where
  "sample_env =
     \<lparr>pydub_available = True,
      pydub_transcode = (\<lambda>p fmt. True),
      librosa_load = (\<lambda>p sr. Inr ([1 / 2, 1 / 4], sr)),
      librosa_mfcc = sample_mfcc,
      os_remove = (\<lambda>p. True),
      model = None,
      json_write = Written\<rparr>"

definition sample_state :: state where
  "sample_state = \<lparr>files = {''uploads/a.ogg''}, emotion_file = Missing\<rparr>"

text \<open>The array \<open>extract_features\<close> returns on it, and an array of zeros.\<close>

definition sample_features :: ndarray where
  "sample_features =
     \<lparr>shape0 = 40, shape1 = 174, rows = replicate 40 ((87 / 10) # replicate 173 0)\<rparr>"

definition zero_features :: ndarray where
  "zero_features = \<lparr>shape0 = 40, shape1 = 174, rows = replicate 40 (replicate 174 0)\<rparr>"

text \<open>A stand-in for \<^verbatim>\<open>np.mean\<close>: the exact mean rounded once to a binary64, a NaN for an
  array without entries. It is what numpy answers when the sum of the entries is exact.
  And two arrays of binary64 entries: one whose mean 4.6 is not a binary64, one whose mean
  is \<open>2 ^ 1020\<close>.\<close>

definition sample_np_mean :: "ndarray \<Rightarrow> pyfloat" where
  "sample_np_mean a =
     (let xs = concat (rows a)
      in if xs = [] then NaN else round64 (sum_list xs / real (length xs)))"

definition rounding_features :: ndarray where
  "rounding_features = \<lparr>shape0 = 1, shape1 = 5, rows = [[5, 5, 5, 4, 4]]\<rparr>"


text \<open>Variants of it: a clip of 100000 samples (196 frames), a clip that decodes to no
  sample, a file librosa cannot decode, no pydub, a removal that fails, a counter file
  that cannot be opened for writing.\<close>

definition long_env :: env where
  "long_env = sample_env\<lparr>librosa_load := (\<lambda>p sr. Inr (replicate 100000 0, sr))\<rparr>"

definition silent_env :: env where
  "silent_env = sample_env\<lparr>librosa_load := (\<lambda>p sr. Inr ([], sr))\<rparr>"

definition undecodable_env :: env where
  "undecodable_env = sample_env\<lparr>librosa_load := (\<lambda>p sr. Inl LibraryError)\<rparr>"

definition no_pydub_env :: env where
  "no_pydub_env = sample_env\<lparr>pydub_available := False\<rparr>"

definition locked_env :: env where
  "locked_env = sample_env\<lparr>os_remove := (\<lambda>p. False)\<rparr>"

definition readonly_env :: env where
  "readonly_env = sample_env\<lparr>json_write := OpenFailed\<rparr>"

section \<open>Properties\<close>

subsection \<open>extract_features: shape, padding, empty audio\<close>

lemma sample_ext: "last (split_dot (lower ''uploads/a.ogg'')) = ''ogg''"
  by (simp add: lower_def lower_char_def char_of_def Let_def)

lemma sample_head: "rsplit_dot_head ''uploads/a.ogg'' = ''uploads/a''"
  by (simp add: rsplit_dot_head_def)

lemma sample_select:
  "select_source sample_env ''uploads/a.ogg'' {''uploads/a.ogg''} =
     (''uploads/a_converted.wav'', {''uploads/a_converted.wav'', ''uploads/a.ogg''})"
  by (simp add: select_source_def convert_audio_to_wav_def sample_env_def sample_ext
      sample_head Let_def)

lemma extract_features_fst:
  "fst (extract_features e p sr n k fs) =
     load_and_transform e (fst (select_source e p fs)) sr n k"
  by (simp add: extract_features_def Let_def split: prod.splits sum.splits)

lemma extract_features_snd:
  "snd (extract_features e p sr n k fs) =
     cleanup e (fst (select_source e p fs)) p (snd (select_source e p fs))"
  by (simp add: extract_features_def Let_def split: prod.splits sum.splits)

lemma wf_np_pad_right:
  "wf_array a \<Longrightarrow> wf_array (np_pad_right a w)"
  by (auto simp: wf_array_def np_pad_right_def)

lemma wf_np_take_cols:
  "wf_array a \<Longrightarrow> wf_array (np_take_cols a k)"
  by (auto simp: wf_array_def np_take_cols_def)

lemma wf_fix_length: "wf_array a \<Longrightarrow> wf_array (fix_length a k)"
  by (simp add: fix_length_def wf_np_pad_right wf_np_take_cols)

lemma shape0_fix_length: "shape0 (fix_length a k) = shape0 a"
  by (simp add: fix_length_def np_pad_right_def np_take_cols_def)

lemma shape1_fix_length: "shape1 (fix_length a k) = k"
  by (simp add: fix_length_def np_pad_right_def np_take_cols_def)

lemma load_and_transform_Inr:
  assumes "librosa_load e p sr = Inr (audio, rate)" and "audio \<noteq> []"
    and "librosa_mfcc e audio rate n = Inr m"
  shows "load_and_transform e p sr n k = Inr (fix_length m k)"
  using assms by (simp add: load_and_transform_def)

text \<open>
  C1. Whenever the decoded clip has at least one sample and librosa answers with a
  two-dimensional array of \<open>N_MFCC\<close> rows, \<open>extract_features\<close> returns an array
  of exactly 40 rows and 174 columns, whatever the number of frames librosa produced.
\<close>

theorem extract_features_shape:
  assumes "librosa_load e (fst (select_source e p fs)) SR = Inr (audio, rate)"
    and "audio \<noteq> []"
    and "librosa_mfcc e audio rate N_MFCC = Inr m"
    and "wf_array m" and "shape0 m = N_MFCC"
  shows "\<exists>M. fst (extract_features e p SR N_MFCC MAX_PAD_LEN fs) = Inr M
           \<and> wf_array M \<and> shape0 M = 40 \<and> shape1 M = 174"
proof -
  have "fst (extract_features e p SR N_MFCC MAX_PAD_LEN fs) = Inr (fix_length m MAX_PAD_LEN)"
    using assms(1-3) by (simp add: extract_features_fst load_and_transform_Inr)
  moreover have "wf_array (fix_length m MAX_PAD_LEN)"
    using assms(4) by (rule wf_fix_length)
  moreover have "shape0 (fix_length m MAX_PAD_LEN) = 40"
    using assms(5) by (simp add: shape0_fix_length N_MFCC_def)
  moreover have "shape1 (fix_length m MAX_PAD_LEN) = 174"
    by (simp add: shape1_fix_length MAX_PAD_LEN_def)
  ultimately show ?thesis by blast
qed

lemma sample_load:
  "librosa_load sample_env p sr = Inr ([1 / 2, 1 / 4], sr)"
  by (simp add: sample_env_def)

lemma sample_mfcc_eq:
  "librosa_mfcc sample_env [1 / 2, 1 / 4] sr n =
     Inr \<lparr>shape0 = n, shape1 = 1, rows = replicate n [87 / 10]\<rparr>"
  by (simp add: sample_env_def sample_mfcc_def)

lemma wf_sample: "wf_array \<lparr>shape0 = n, shape1 = 1, rows = replicate n [x]\<rparr>"
  by (simp add: wf_array_def)

theorem extract_features_shape_witness:
  "librosa_load sample_env (fst (select_source sample_env ''uploads/a.ogg'' {''uploads/a.ogg''})) SR
     = Inr ([1 / 2, 1 / 4], SR)
   \<and> [1 / 2, 1 / 4] \<noteq> ([] :: real list)
   \<and> librosa_mfcc sample_env [1 / 2, 1 / 4] SR N_MFCC
       = Inr \<lparr>shape0 = N_MFCC, shape1 = 1, rows = replicate N_MFCC [87 / 10]\<rparr>
   \<and> wf_array \<lparr>shape0 = N_MFCC, shape1 = 1, rows = replicate N_MFCC [87 / 10]\<rparr>
   \<and> (\<exists>M. fst (extract_features sample_env ''uploads/a.ogg'' SR N_MFCC MAX_PAD_LEN
                 {''uploads/a.ogg''}) = Inr M
          \<and> wf_array M \<and> shape0 M = 40 \<and> shape1 M = 174)"
proof -
  let ?m = "\<lparr>shape0 = N_MFCC, shape1 = 1, rows = replicate N_MFCC [87 / 10]\<rparr>"
  have h1: "librosa_load sample_env
              (fst (select_source sample_env ''uploads/a.ogg'' {''uploads/a.ogg''})) SR
            = Inr ([1 / 2, 1 / 4], SR)"
    by (rule sample_load)
  have h2: "[1 / 2, 1 / 4] \<noteq> ([] :: real list)" by simp
  have h3: "librosa_mfcc sample_env [1 / 2, 1 / 4] SR N_MFCC = Inr ?m"
    by (rule sample_mfcc_eq)
  have h4: "wf_array ?m" by (rule wf_sample)
  have h5: "shape0 ?m = N_MFCC" by simp
  from extract_features_shape [OF h1 h2 h3 h4 h5] h1 h2 h3 h4 show ?thesis
    by blast
qed

lemma rows_fix_length_pad:
  "shape1 m < k \<Longrightarrow>
   rows (fix_length m k) = map (\<lambda>r. r @ replicate (k - shape1 m) 0) (rows m)"
  by (simp add: fix_length_def np_pad_right_def)

lemma rows_fix_length_take:
  "k \<le> shape1 m \<Longrightarrow> rows (fix_length m k) = map (take k) (rows m)"
  by (simp add: fix_length_def np_take_cols_def)

lemma wf_array_row: "wf_array m \<Longrightarrow> i < shape0 m \<Longrightarrow> length (rows m ! i) = shape1 m"
  by (simp add: wf_array_def)

lemma fix_length_pad_entry:
  assumes "wf_array m" and "shape1 m < k" and "i < shape0 m" and "j < k"
  shows "rows (fix_length m k) ! i ! j = (if j < shape1 m then rows m ! i ! j else 0)"
proof -
  have len: "length (rows m) = shape0 m" using assms(1) by (simp add: wf_array_def)
  have row: "length (rows m ! i) = shape1 m" using assms(1,3) by (rule wf_array_row)
  have "rows (fix_length m k) ! i = rows m ! i @ replicate (k - shape1 m) 0"
    using assms(2,3) len by (simp add: rows_fix_length_pad)
  then show ?thesis using row assms(4) by (simp add: nth_append)
qed

lemma fix_length_take_entry:
  assumes "wf_array m" and "k \<le> shape1 m" and "i < shape0 m" and "j < k"
  shows "rows (fix_length m k) ! i ! j = rows m ! i ! j"
proof -
  have len: "length (rows m) = shape0 m" using assms(1) by (simp add: wf_array_def)
  have "rows (fix_length m k) ! i = take k (rows m ! i)"
    using assms(2,3) len by (simp add: rows_fix_length_take)
  then show ?thesis using assms(4) by simp
qed

text \<open>
  C3. With n the number of frames librosa produced: when n < 174 the returned array is
  the natural one with 174 - n zeros appended to every row, so the columns n to 173 are
  zero and the columns below n are unchanged; when n \<ge> 174 it is the first 174 columns of
  the natural array, entry for entry.
\<close>

theorem extract_features_pad_or_prefix:
  assumes "librosa_load e (fst (select_source e p fs)) SR = Inr (audio, rate)"
    and "audio \<noteq> []"
    and "librosa_mfcc e audio rate N_MFCC = Inr m"
    and "wf_array m"
  shows "\<exists>M. fst (extract_features e p SR N_MFCC MAX_PAD_LEN fs) = Inr M
           \<and> (shape1 m < 174 \<longrightarrow>
                rows M = map (\<lambda>r. r @ replicate (174 - shape1 m) 0) (rows m)
                \<and> (\<forall>i < shape0 m. \<forall>j < 174.
                     rows M ! i ! j = (if j < shape1 m then rows m ! i ! j else 0)))
           \<and> (174 \<le> shape1 m \<longrightarrow>
                rows M = map (take 174) (rows m)
                \<and> (\<forall>i < shape0 m. \<forall>j < 174. rows M ! i ! j = rows m ! i ! j))"
proof -
  let ?M = "fix_length m MAX_PAD_LEN"
  have res: "fst (extract_features e p SR N_MFCC MAX_PAD_LEN fs) = Inr ?M"
    using assms(1-3) by (simp add: extract_features_fst load_and_transform_Inr)
  have k: "MAX_PAD_LEN = 174" by (simp add: MAX_PAD_LEN_def)
  have pad: "rows ?M = map (\<lambda>r. r @ replicate (174 - shape1 m) 0) (rows m)"
    if "shape1 m < 174"
    using that rows_fix_length_pad [of m MAX_PAD_LEN] by (simp add: k)
  have pad_entry: "rows ?M ! i ! j = (if j < shape1 m then rows m ! i ! j else 0)"
    if "shape1 m < 174" "i < shape0 m" "j < 174" for i j
    using that fix_length_pad_entry [OF assms(4), of MAX_PAD_LEN i j] by (simp add: k)
  have cut: "rows ?M = map (take 174) (rows m)" if "174 \<le> shape1 m"
    using that rows_fix_length_take [of MAX_PAD_LEN m] by (simp add: k)
  have cut_entry: "rows ?M ! i ! j = rows m ! i ! j"
    if "174 \<le> shape1 m" "i < shape0 m" "j < 174" for i j
    using that fix_length_take_entry [OF assms(4), of MAX_PAD_LEN i j] by (simp add: k)
  from res pad pad_entry cut cut_entry show ?thesis by blast
qed

lemma load_and_transform_empty:
  "librosa_load e p sr = Inr ([], rate) \<Longrightarrow> load_and_transform e p sr n k = Inl ValueError"
  by (simp add: load_and_transform_def)

lemma analyze_extract_error:
  assumes "fst (extract_features e p SR N_MFCC MAX_PAD_LEN (files st)) = Inl err"
  shows "analyze_saved_file np_mean e p st =
           (Inl err, st\<lparr>files := snd (extract_features e p SR N_MFCC MAX_PAD_LEN (files st))\<rparr>)"
  using assms by (cases "extract_features e p SR N_MFCC MAX_PAD_LEN (files st)")
    (simp add: analyze_saved_file_def)

text \<open>
  C4. When the decoded clip has no sample, \<open>extract_features\<close> raises the
  \<open>ValueError\<close> of line 110 and returns no array; \<open>analyze_saved_file\<close> raises
  the same error, returns no label and leaves the counter file as it was.
\<close>

theorem empty_audio_fails:
  assumes "librosa_load e (fst (select_source e p (files st))) SR = Inr ([], rate)"
  shows "fst (extract_features e p SR N_MFCC MAX_PAD_LEN (files st)) = Inl ValueError
         \<and> fst (analyze_saved_file np_mean e p st) = Inl ValueError
         \<and> emotion_file (snd (analyze_saved_file np_mean e p st)) = emotion_file st"
proof -
  have ex: "fst (extract_features e p SR N_MFCC MAX_PAD_LEN (files st)) = Inl ValueError"
    using assms by (simp add: extract_features_fst load_and_transform_empty)
  then show ?thesis by (simp add: analyze_extract_error)
qed

lemma long_load: "librosa_load long_env p sr = Inr (replicate 100000 0, sr)"
  by (simp add: long_env_def)

lemma long_mfcc:
  "librosa_mfcc long_env (replicate 100000 0) sr n =
     Inr \<lparr>shape0 = n, shape1 = 196, rows = replicate n (replicate 196 (87 / 10))\<rparr>"
  by (simp add: long_env_def sample_env_def sample_mfcc_def)

lemma wf_replicate: "wf_array \<lparr>shape0 = n, shape1 = c, rows = replicate n (replicate c x)\<rparr>"
  by (simp add: wf_array_def)

theorem extract_features_pad_or_prefix_witness:
  "librosa_load sample_env (fst (select_source sample_env ''uploads/a.ogg'' {''uploads/a.ogg''})) SR
     = Inr ([1 / 2, 1 / 4], SR)
   \<and> [1 / 2, 1 / 4] \<noteq> ([] :: real list)
   \<and> librosa_mfcc sample_env [1 / 2, 1 / 4] SR N_MFCC
       = Inr \<lparr>shape0 = N_MFCC, shape1 = 1, rows = replicate N_MFCC [87 / 10]\<rparr>
   \<and> wf_array \<lparr>shape0 = N_MFCC, shape1 = 1, rows = replicate N_MFCC [87 / 10]\<rparr>
   \<and> (\<exists>M. fst (extract_features sample_env ''uploads/a.ogg'' SR N_MFCC MAX_PAD_LEN
                 {''uploads/a.ogg''}) = Inr M
          \<and> rows M = replicate 40 ((87 / 10) # replicate 173 0)
          \<and> rows M ! 0 ! 0 = 87 / 10 \<and> rows M ! 39 ! 173 = 0)
   \<and> (\<exists>M. fst (extract_features long_env ''uploads/a.ogg'' SR N_MFCC MAX_PAD_LEN
                 {''uploads/a.ogg''}) = Inr M
          \<and> rows M = replicate 40 (replicate 174 (87 / 10)))"
proof -
  let ?m = "\<lparr>shape0 = N_MFCC, shape1 = 1, rows = replicate N_MFCC [87 / 10]\<rparr>"
  let ?l = "\<lparr>shape0 = N_MFCC, shape1 = 196, rows = replicate N_MFCC (replicate 196 (87 / 10))\<rparr>"
  have h1: "librosa_load sample_env
              (fst (select_source sample_env ''uploads/a.ogg'' {''uploads/a.ogg''})) SR
            = Inr ([1 / 2, 1 / 4], SR)"
    by (rule sample_load)
  have h2: "[1 / 2, 1 / 4] \<noteq> ([] :: real list)" by simp
  have h3: "librosa_mfcc sample_env [1 / 2, 1 / 4] SR N_MFCC = Inr ?m"
    by (rule sample_mfcc_eq)
  have h4: "wf_array ?m" by (rule wf_sample)
  have g1: "librosa_load long_env
              (fst (select_source long_env ''uploads/a.ogg'' {''uploads/a.ogg''})) SR
            = Inr (replicate 100000 0, SR)"
    by (rule long_load)
  have g2: "replicate 100000 0 \<noteq> ([] :: real list)" by simp
  have g3: "librosa_mfcc long_env (replicate 100000 0) SR N_MFCC = Inr ?l"
    by (rule long_mfcc)
  have g4: "wf_array ?l" by (rule wf_replicate)
  obtain M where M: "fst (extract_features sample_env ''uploads/a.ogg'' SR N_MFCC MAX_PAD_LEN
                 {''uploads/a.ogg''}) = Inr M"
    and padded: "shape1 ?m < 174 \<longrightarrow>
                rows M = map (\<lambda>r. r @ replicate (174 - shape1 ?m) 0) (rows ?m)
                \<and> (\<forall>i < shape0 ?m. \<forall>j < 174.
                     rows M ! i ! j = (if j < shape1 ?m then rows ?m ! i ! j else 0))"
    using extract_features_pad_or_prefix [OF h1 h2 h3 h4] by blast
  have r1: "rows M = replicate 40 ((87 / 10) # replicate 173 0)"
    using padded by (simp add: N_MFCC_def)
  have r2: "rows M ! 0 ! 0 = 87 / 10" using padded by (simp add: N_MFCC_def)
  have r3: "rows M ! 39 ! 173 = 0" using padded by (simp add: N_MFCC_def)
  obtain L where L: "fst (extract_features long_env ''uploads/a.ogg'' SR N_MFCC MAX_PAD_LEN
                 {''uploads/a.ogg''}) = Inr L"
    and cut: "174 \<le> shape1 ?l \<longrightarrow> rows L = map (take 174) (rows ?l)
                \<and> (\<forall>i < shape0 ?l. \<forall>j < 174. rows L ! i ! j = rows ?l ! i ! j)"
    using extract_features_pad_or_prefix [OF g1 g2 g3 g4] by blast
  have r4: "rows L = replicate 40 (replicate 174 (87 / 10))"
    using cut by (simp add: N_MFCC_def)
  from h1 h2 h3 h4 M r1 r2 r3 L r4 show ?thesis by blast
qed

lemma silent_load: "librosa_load silent_env p sr = Inr ([], sr)"
  by (simp add: silent_env_def)

theorem empty_audio_fails_witness:
  "librosa_load silent_env (fst (select_source silent_env ''uploads/a.ogg'' (files sample_state))) SR
     = Inr ([], SR)
   \<and> fst (extract_features silent_env ''uploads/a.ogg'' SR N_MFCC MAX_PAD_LEN (files sample_state))
       = Inl ValueError
   \<and> fst (analyze_saved_file sample_np_mean silent_env ''uploads/a.ogg'' sample_state) = Inl ValueError
   \<and> emotion_file (snd (analyze_saved_file sample_np_mean silent_env ''uploads/a.ogg'' sample_state)) = Missing"
proof -
  have h: "librosa_load silent_env
             (fst (select_source silent_env ''uploads/a.ogg'' (files sample_state))) SR
           = Inr ([], SR)"
    by (rule silent_load)
  from empty_audio_fails [OF h] h show ?thesis by (simp add: sample_state_def)
qed

subsection \<open>Rounding to binary64\<close>

lemma pow2_powr: "pow2 k = 2 powr of_int k"
proof (cases "0 \<le> k")
  case True
  then have "(2::real) powr of_int k = 2 powr real (nat k)" by simp
  also have "\<dots> = 2 ^ nat k" by (simp add: powr_realpow)
  finally show ?thesis using True by (simp add: pow2_def)
next
  case False
  then have "(2::real) powr of_int k = 2 powr - real (nat (- k))" by simp
  also have "\<dots> = 1 / 2 ^ nat (- k)" by (simp add: powr_minus powr_realpow divide_inverse)
  finally show ?thesis using False by (simp add: pow2_def)
qed

lemma pow2_pos: "0 < pow2 k"
  by (simp add: pow2_powr)



lemma floor_log2_eq:
  assumes "pow2 k \<le> \<bar>x\<bar>" and "\<bar>x\<bar> < pow2 (k + 1)"
  shows "\<lfloor>log 2 \<bar>x\<bar>\<rfloor> = k"
proof -
  have pos: "0 < \<bar>x\<bar>" using assms(1) pow2_pos [of k] by linarith
  have "of_int k \<le> log 2 \<bar>x\<bar>" using assms(1) pos by (simp add: le_log_iff pow2_powr)
  moreover have "log 2 \<bar>x\<bar> < of_int (k + 1)"
    using assms(2) pos by (simp add: log_less_iff pow2_powr)
  ultimately show ?thesis by (simp add: floor_eq_iff)
qed

text \<open>With the binary exponent known, \<open>round64\<close> is a computation on rationals.\<close>

lemma round64_eval:
  assumes "pow2 k \<le> \<bar>x\<bar>" and "\<bar>x\<bar> < pow2 (k + 1)" and "- 1022 \<le> k"
  shows "round64 x =
           (if 2 ^ 1024 \<le> \<bar>of_int (round_half_even (x / pow2 (k - 52))) * pow2 (k - 52)\<bar>
            then Infinite
            else Finite (of_int (round_half_even (x / pow2 (k - 52))) * pow2 (k - 52)))"
proof -
  have "x \<noteq> 0" using assms(1) pow2_pos [of k] by auto
  moreover have "max \<lfloor>log 2 \<bar>x\<bar>\<rfloor> (- 1022) = k"
    using floor_log2_eq [OF assms(1,2)] assms(3) by simp
  ultimately show ?thesis by (simp add: round64_def Let_def)
qed

lemma round64_not_NaN: "round64 x \<noteq> NaN"
  by (simp add: round64_def Let_def)




text \<open>The roundings the concrete arrays need.\<close>

lemma round64_23_5: "round64 (23 / 5) = Finite (5179139571476070 / 2 ^ 50)"
  by (subst round64_eval [where k = 2]) (simp_all add: round_half_even_def pow2_def Let_def)

lemma round64_460: "round64 (5179139571476070 / 2 ^ 50 * 100) = Finite (8092405580431359 / 2 ^ 44)"
  by (subst round64_eval [where k = 8]) (simp_all add: round_half_even_def pow2_def Let_def)

lemma round64_1_20: "round64 (1 / 20) = Finite (7205759403792794 / 2 ^ 57)"
  by (subst round64_eval [where k = "- 5"]) (simp_all add: round_half_even_def pow2_def Let_def)

lemma round64_5: "round64 (7205759403792794 / 2 ^ 57 * 100) = Finite 5"
  by (subst round64_eval [where k = 2]) (simp_all add: round_half_even_def pow2_def Let_def)



subsection \<open>The fallback classifier\<close>

lemma length_labels: "length EMOTION_LABELS = 8"
  by (simp add: EMOTION_LABELS_def)

lemma fallback_index_rounded:
  "np_mean a = Finite m \<Longrightarrow> round64 (m * 100) = Finite y \<Longrightarrow>
   fallback_index np_mean a = Inr (\<lfloor>\<bar>y\<bar>\<rfloor> mod 8)"
  by (simp add: fallback_index_def float_mul_def float_abs_def py_int_def py_mod_def
      length_labels Let_def)


lemma fallback_index_range:
  assumes "fallback_index np_mean a = Inr idx"
  shows "0 \<le> idx \<and> idx < 8"
proof -
  obtain k where "py_mod k (int (length EMOTION_LABELS)) = Inr idx"
    using assms by (auto simp: fallback_index_def Let_def split: sum.splits)
  then have "idx = k mod 8" by (simp add: py_mod_def length_labels)
  then show ?thesis by simp
qed

lemma py_index_labels:
  "0 \<le> i \<Longrightarrow> i < 8 \<Longrightarrow> py_index EMOTION_LABELS i = Inr (EMOTION_LABELS ! nat i)"
  by (simp add: py_index_def length_labels)

lemma classify_fallback_index:
  assumes "model e = None" and "fallback_index np_mean a = Inr idx"
  shows "classify np_mean e a = Inr (EMOTION_LABELS ! nat idx)"
  using assms fallback_index_range [OF assms(2)]
  by (simp add: classify_def py_index_labels)


lemma labels_0: "EMOTION_LABELS ! 0 = ''neutral''"
  by (simp add: EMOTION_LABELS_def)

lemma labels_3: "EMOTION_LABELS ! 3 = ''sad''"
  by (simp add: EMOTION_LABELS_def)

lemma labels_4: "EMOTION_LABELS ! 4 = ''angry''"
  by (simp add: EMOTION_LABELS_def)

lemma labels_5: "EMOTION_LABELS ! 5 = ''fear''"
  by (simp add: EMOTION_LABELS_def)

text \<open>
  C2, as the code has it. With no model loaded, when \<^verbatim>\<open>np.mean\<close> answers the finite float
  \<open>m\<close> and the binary64 product of \<open>m\<close> and 100 is the finite float \<open>y\<close>, the index
  computed by lines 183 and 184 is the floor of the absolute value of \<open>y\<close>, modulo 8, and
  the label is the entry of \<open>EMOTION_LABELS\<close> at that index. \<open>y\<close> is the rounded
  product of the float mean, not the exact one of the exact mean. An array of zeros, whose
  float mean is 0.0, gives index 0, the label neutral.
\<close>

theorem fallback_label_rounded:
  assumes "model e = None" and "np_mean a = Finite m" and "round64 (m * 100) = Finite y"
  shows "fallback_index np_mean a = Inr (\<lfloor>\<bar>y\<bar>\<rfloor> mod 8)
         \<and> classify np_mean e a = Inr (EMOTION_LABELS ! nat (\<lfloor>\<bar>y\<bar>\<rfloor> mod 8))
         \<and> (m = 0 \<longrightarrow> fallback_index np_mean a = Inr 0
                       \<and> classify np_mean e a = Inr ''neutral'')"
proof -
  have i: "fallback_index np_mean a = Inr (\<lfloor>\<bar>y\<bar>\<rfloor> mod 8)"
    by (rule fallback_index_rounded [where np_mean = np_mean and a = a, OF assms(2,3)])
  have c: "classify np_mean e a = Inr (EMOTION_LABELS ! nat (\<lfloor>\<bar>y\<bar>\<rfloor> mod 8))"
    using assms(1) i by (rule classify_fallback_index)
  have z: "y = 0" if "m = 0"
    using assms(3) that by (simp add: round64_def)
  from i c z show ?thesis by (auto simp: labels_0)
qed

lemma sum_list_concat_replicate:
  "sum_list (concat (replicate n xs)) = real n * sum_list (xs :: real list)"
  by (induction n) (simp_all add: algebra_simps)

lemma length_concat_replicate: "length (concat (replicate n xs)) = n * length xs"
  by (induction n) simp_all

lemma sample_model: "model sample_env = None"
  by (simp add: sample_env_def)

lemma sample_features_mean: "sample_np_mean sample_features = Finite (7205759403792794 / 2 ^ 57)"
proof -
  have "sum_list (concat (rows sample_features)) / real (length (concat (rows sample_features)))
          = 1 / 20"
    by (simp add: sample_features_def sum_list_concat_replicate length_concat_replicate
        sum_list_replicate)
  moreover have "concat (rows sample_features) \<noteq> []" by (simp add: sample_features_def)
  ultimately show ?thesis by (simp only: sample_np_mean_def Let_def if_False round64_1_20)
qed

lemma zero_features_mean: "sample_np_mean zero_features = Finite 0"
proof -
  have "sum_list (concat (rows zero_features)) = 0"
    by (simp add: zero_features_def sum_list_concat_replicate sum_list_replicate)
  moreover have "concat (rows zero_features) \<noteq> []" by (simp add: zero_features_def)
  ultimately show ?thesis by (simp add: sample_np_mean_def Let_def round64_def)
qed

lemma rounding_features_mean:
  "sample_np_mean rounding_features = Finite (5179139571476070 / 2 ^ 50)"
proof -
  have "sum_list (concat (rows rounding_features)) / real (length (concat (rows rounding_features)))
          = 23 / 5"
    by (simp add: rounding_features_def)
  moreover have "concat (rows rounding_features) \<noteq> []" by (simp add: rounding_features_def)
  ultimately show ?thesis by (simp only: sample_np_mean_def Let_def if_False round64_23_5)
qed


theorem fallback_label_rounded_witness:
  "model sample_env = None
   \<and> sample_np_mean sample_features = Finite (7205759403792794 / 2 ^ 57)
   \<and> round64 (7205759403792794 / 2 ^ 57 * 100) = Finite 5
   \<and> fallback_index sample_np_mean sample_features = Inr 5
   \<and> classify sample_np_mean sample_env sample_features = Inr ''fear''
   \<and> sample_np_mean zero_features = Finite 0
   \<and> round64 (0 * 100) = Finite 0
   \<and> fallback_index sample_np_mean zero_features = Inr 0
   \<and> classify sample_np_mean sample_env zero_features = Inr ''neutral''"
proof -
  have z: "round64 (0 * 100) = Finite 0" by (simp add: round64_def)
  note a = fallback_label_rounded [where np_mean = sample_np_mean and a = sample_features,
      OF sample_model sample_features_mean round64_5]
  note b = fallback_label_rounded [where np_mean = sample_np_mean and a = zero_features,
      OF sample_model zero_features_mean z]
  have a1: "fallback_index sample_np_mean sample_features = Inr 5" using a by simp
  have a2: "classify sample_np_mean sample_env sample_features = Inr ''fear''"
    using a by (simp add: labels_5)
  have b1: "fallback_index sample_np_mean zero_features = Inr 0
            \<and> classify sample_np_mean sample_env zero_features = Inr ''neutral''"
    using b by blast
  from sample_model sample_features_mean round64_5 a1 a2 zero_features_mean z b1
  show ?thesis by blast
qed

text \<open>
  C2 as stated fails: on the array with the one row 5, 5, 5, 4, 4 the float mean is the
  binary64 next to 4.6, its product with 100 rounds to 459.99999999999994, and the code
  takes index 459 mod 8 = 3, the label sad; the floor of 100 times the mean is 460 and
  460 mod 8 = 4, the label angry.
\<close>

theorem fallback_label_exact_counterexample:
  "sample_np_mean rounding_features = Finite (5179139571476070 / 2 ^ 50)
   \<and> float_mul (Finite (5179139571476070 / 2 ^ 50)) 100 = Finite (8092405580431359 / 2 ^ 44)
   \<and> fallback_index sample_np_mean rounding_features = Inr 3
   \<and> classify sample_np_mean sample_env rounding_features = Inr ''sad''
   \<and> spec_fallback_index rounding_features = 4
   \<and> EMOTION_LABELS ! nat (spec_fallback_index rounding_features) = ''angry''"
proof -
  have f: "float_mul (Finite (5179139571476070 / 2 ^ 50)) 100
             = Finite (8092405580431359 / 2 ^ 44)"
    by (simp only: float_mul_def pyfloat.case round64_460)
  have fl: "\<lfloor>\<bar>8092405580431359 / 2 ^ 44 :: real\<bar>\<rfloor> = 459" by (simp add: floor_eq_iff)
  have i: "fallback_index sample_np_mean rounding_features = Inr 3"
    using fallback_index_rounded [where np_mean = sample_np_mean and a = rounding_features,
        OF rounding_features_mean round64_460] by (simp only: fl) simp
  have c: "classify sample_np_mean sample_env rounding_features = Inr ''sad''"
    using classify_fallback_index [OF sample_model i] by (simp add: labels_3)
  have s: "spec_fallback_index rounding_features = 4"
    by (simp add: spec_fallback_index_def matrix_mean_def rounding_features_def)
  from rounding_features_mean f i c s show ?thesis by (simp add: labels_4)
qed




subsection \<open>The counter file\<close>

lemma map_of_counter:
  "map_of (map (\<lambda>(k, n). (k, JInt n)) counts) l = map_option JInt (map_of counts l)"
  by (induction counts) auto

lemma update_counter:
  "AList.update l (JInt v) (map (\<lambda>(k, n). (k, JInt n)) counts) =
     map (\<lambda>(k, n). (k, JInt n)) (AList.update l v counts)"
  by (induction counts) auto

lemma reads_as_Holds: "reads_as (Holds (counter_json counts)) counts"
  by (simp add: reads_as_def read_json_safe_def)

lemma reads_as_Missing: "reads_as Missing []"
  by (simp add: reads_as_def read_json_safe_def counter_json_def)

lemma update_emotion_analytics_counter:
  assumes "reads_as (emotion_file st) counts"
  shows "update_emotion_analytics e l st =
           (Inr (), st\<lparr>emotion_file :=
              snd (write_json_safe e (emotion_file st)
                (counter_json
                  (AList.update l (case map_of counts l of None \<Rightarrow> 1 | Some n \<Rightarrow> n + 1)
                     counts)))\<rparr>)"
proof -
  have r: "read_json_safe (emotion_file st) (JObj []) =
             JObj (map (\<lambda>(k, n). (k, JInt n)) counts)"
    using assms by (simp add: reads_as_def counter_json_def)
  show ?thesis
    by (cases "map_of counts l")
      (simp_all add: update_emotion_analytics_def r py_get_def py_add_one_def py_setitem_def
        map_of_counter update_counter counter_json_def Let_def split: prod.splits)
qed

lemma update_emotion_analytics_written:
  assumes "json_write e = Written" and "reads_as (emotion_file st) counts"
  shows "update_emotion_analytics e l st =
           (Inr (), st\<lparr>emotion_file :=
              Holds (counter_json
                (AList.update l (case map_of counts l of None \<Rightarrow> 1 | Some n \<Rightarrow> n + 1)
                   counts))\<rparr>)"
  using assms(1) by (simp add: update_emotion_analytics_counter [OF assms(2)] write_json_safe_def)

text \<open>
  C5. When the counter file reads as a mapping from labels to counts (a missing or
  unreadable file reads as the empty mapping) and the write succeeds,
  \<open>update_emotion_analytics\<close> writes back a mapping in which the label's count is its
  previous count plus 1, or 1 when it was absent, and every other label's count is
  unchanged. Starting from the empty mapping, recording happy three times and then sad
  once leaves exactly happy: 3, sad: 1 in the file.
\<close>

theorem record_increments:
  assumes "json_write e = Written" and "reads_as (emotion_file st) counts"
  shows "\<exists>counts'.
           update_emotion_analytics e l st
             = (Inr (), st\<lparr>emotion_file := Holds (counter_json counts')\<rparr>)
           \<and> map_of counts' l = Some (case map_of counts l of None \<Rightarrow> 1 | Some n \<Rightarrow> n + 1)
           \<and> (\<forall>k. k \<noteq> l \<longrightarrow> map_of counts' k = map_of counts k)
           \<and> (counts = [] \<longrightarrow>
                emotion_file
                  (snd (update_emotion_analytics e ''sad''
                    (snd (update_emotion_analytics e ''happy''
                      (snd (update_emotion_analytics e ''happy''
                        (snd (update_emotion_analytics e ''happy'' st))))))))
                = Holds (JObj [(''happy'', JInt 3), (''sad'', JInt 1)]))"
proof -
  let ?c = "AList.update l (case map_of counts l of None \<Rightarrow> 1 | Some n \<Rightarrow> n + 1) counts"
  have u: "update_emotion_analytics e l st
             = (Inr (), st\<lparr>emotion_file := Holds (counter_json ?c)\<rparr>)"
    using assms by (rule update_emotion_analytics_written)
  have own: "map_of ?c l = Some (case map_of counts l of None \<Rightarrow> 1 | Some n \<Rightarrow> n + 1)"
    by (simp add: update_conv')
  have others: "\<forall>k. k \<noteq> l \<longrightarrow> map_of ?c k = map_of counts k"
    by (simp add: update_conv')
  have four: "emotion_file
                  (snd (update_emotion_analytics e ''sad''
                    (snd (update_emotion_analytics e ''happy''
                      (snd (update_emotion_analytics e ''happy''
                        (snd (update_emotion_analytics e ''happy'' st))))))))
                = Holds (JObj [(''happy'', JInt 3), (''sad'', JInt 1)])"
    if "counts = []"
  proof -
    have r0: "reads_as (emotion_file st) []" using assms(2) that by simp
    let ?s1 = "st\<lparr>emotion_file := Holds (counter_json [(''happy'', 1)])\<rparr>"
    let ?s2 = "st\<lparr>emotion_file := Holds (counter_json [(''happy'', 2)])\<rparr>"
    let ?s3 = "st\<lparr>emotion_file := Holds (counter_json [(''happy'', 3)])\<rparr>"
    let ?s4 = "st\<lparr>emotion_file := Holds (counter_json [(''happy'', 3), (''sad'', 1)])\<rparr>"
    have s1: "snd (update_emotion_analytics e ''happy'' st) = ?s1"
      by (simp add: update_emotion_analytics_written [OF assms(1) r0])
    have r1: "reads_as (emotion_file ?s1) [(''happy'', 1)]" by (simp add: reads_as_Holds)
    have s2: "snd (update_emotion_analytics e ''happy'' ?s1) = ?s2"
      by (simp add: update_emotion_analytics_written [OF assms(1) r1])
    have r2: "reads_as (emotion_file ?s2) [(''happy'', 2)]" by (simp add: reads_as_Holds)
    have s3: "snd (update_emotion_analytics e ''happy'' ?s2) = ?s3"
      by (simp add: update_emotion_analytics_written [OF assms(1) r2])
    have r3: "reads_as (emotion_file ?s3) [(''happy'', 3)]" by (simp add: reads_as_Holds)
    have s4: "snd (update_emotion_analytics e ''sad'' ?s3) = ?s4"
      by (simp add: update_emotion_analytics_written [OF assms(1) r3])
    show ?thesis unfolding s1 s2 s3 s4 by (simp add: counter_json_def)
  qed
  from u own others four show ?thesis by blast
qed

lemma sample_written: "json_write sample_env = Written"
  by (simp add: sample_env_def)

theorem record_increments_witness:
  "json_write sample_env = Written
   \<and> reads_as (emotion_file sample_state) []
   \<and> update_emotion_analytics sample_env ''happy'' sample_state
       = (Inr (), sample_state\<lparr>emotion_file := Holds (JObj [(''happy'', JInt 1)])\<rparr>)
   \<and> emotion_file
        (snd (update_emotion_analytics sample_env ''sad''
          (snd (update_emotion_analytics sample_env ''happy''
            (snd (update_emotion_analytics sample_env ''happy''
              (snd (update_emotion_analytics sample_env ''happy'' sample_state))))))))
      = Holds (JObj [(''happy'', JInt 3), (''sad'', JInt 1)])"
proof -
  have r: "reads_as (emotion_file sample_state) []"
    by (simp add: sample_state_def reads_as_Missing)
  obtain c where u: "update_emotion_analytics sample_env ''happy'' sample_state
             = (Inr (), sample_state\<lparr>emotion_file := Holds (counter_json c)\<rparr>)"
    and four: "emotion_file
        (snd (update_emotion_analytics sample_env ''sad''
          (snd (update_emotion_analytics sample_env ''happy''
            (snd (update_emotion_analytics sample_env ''happy''
              (snd (update_emotion_analytics sample_env ''happy'' sample_state))))))))
      = Holds (JObj [(''happy'', JInt 3), (''sad'', JInt 1)])"
    using record_increments [OF sample_written r, of "''happy''"] by blast
  have "update_emotion_analytics sample_env ''happy'' sample_state
       = (Inr (), sample_state\<lparr>emotion_file := Holds (JObj [(''happy'', JInt 1)])\<rparr>)"
    by (simp add: update_emotion_analytics_written [OF sample_written r] counter_json_def)
  with sample_written r four show ?thesis by blast
qed

subsection \<open>analyze_saved_file\<close>

lemma convert_json_write:
  "convert_audio_to_wav (e\<lparr>json_write := w\<rparr>) p fs = convert_audio_to_wav e p fs"
  by (simp add: convert_audio_to_wav_def)

lemma select_source_json_write:
  "select_source (e\<lparr>json_write := w\<rparr>) p fs = select_source e p fs"
  by (simp add: select_source_def convert_json_write Let_def)

lemma load_and_transform_json_write:
  "load_and_transform (e\<lparr>json_write := w\<rparr>) p sr n k = load_and_transform e p sr n k"
  by (simp add: load_and_transform_def split: sum.splits prod.splits)

lemma cleanup_json_write:
  "cleanup (e\<lparr>json_write := w\<rparr>) q p fs = cleanup e q p fs"
  by (simp add: cleanup_def)

lemma extract_features_json_write:
  "extract_features (e\<lparr>json_write := w\<rparr>) p sr n k fs = extract_features e p sr n k fs"
  by (simp add: extract_features_def select_source_json_write load_and_transform_json_write
      cleanup_json_write split: sum.splits prod.splits)

lemma classify_json_write: "classify np_mean (e\<lparr>json_write := w\<rparr>) m = classify np_mean e m"
  by (simp add: classify_def)

lemma update_emotion_analytics_fst:
  "fst (update_emotion_analytics e l st) = fst (update_emotion_analytics e' l st)"
  by (simp add: update_emotion_analytics_def Let_def split: sum.splits prod.splits)

lemma analyze_classify_error:
  assumes "fst (extract_features e p SR N_MFCC MAX_PAD_LEN (files st)) = Inr m"
    and "classify np_mean e m = Inl err"
  shows "fst (analyze_saved_file np_mean e p st) = Inl err"
  using assms by (cases "extract_features e p SR N_MFCC MAX_PAD_LEN (files st)")
    (simp add: analyze_saved_file_def)

lemma analyze_classified:
  assumes "fst (extract_features e p SR N_MFCC MAX_PAD_LEN (files st)) = Inr m"
    and "classify np_mean e m = Inr l"
  shows "analyze_saved_file np_mean e p st =
           (case update_emotion_analytics e l
                   (st\<lparr>files := snd (extract_features e p SR N_MFCC MAX_PAD_LEN (files st))\<rparr>) of
              (Inl err, st') \<Rightarrow> (Inl err, st')
            | (Inr u, st') \<Rightarrow> (Inr l, st'))"
  using assms by (cases "extract_features e p SR N_MFCC MAX_PAD_LEN (files st)")
    (simp add: analyze_saved_file_def)

lemma analyze_fst_json_write:
  "fst (analyze_saved_file np_mean (e\<lparr>json_write := w\<rparr>) p st) =
   fst (analyze_saved_file np_mean (e\<lparr>json_write := w'\<rparr>) p st)"
proof (cases "fst (extract_features e p SR N_MFCC MAX_PAD_LEN (files st))")
  case (Inl err)
  then show ?thesis
    by (simp add: analyze_extract_error extract_features_json_write)
next
  case (Inr m)
  note m = this
  show ?thesis
  proof (cases "classify np_mean e m")
    case (Inl err)
    then show ?thesis
      using m by (simp add: analyze_classify_error extract_features_json_write
          classify_json_write)
  next
    case (Inr l)
    let ?st = "st\<lparr>files := snd (extract_features e p SR N_MFCC MAX_PAD_LEN (files st))\<rparr>"
    have eq: "fst (update_emotion_analytics (e\<lparr>json_write := w\<rparr>) l ?st) =
              fst (update_emotion_analytics (e\<lparr>json_write := w'\<rparr>) l ?st)"
      by (rule update_emotion_analytics_fst)
    have a: "fst (analyze_saved_file np_mean (e\<lparr>json_write := v\<rparr>) p st) =
             (case fst (update_emotion_analytics (e\<lparr>json_write := v\<rparr>) l ?st) of
                Inl err \<Rightarrow> Inl err | Inr u \<Rightarrow> Inr l)" for v
      using m Inr
      by (simp add: analyze_classified extract_features_json_write classify_json_write
          split: prod.splits sum.splits)
    show ?thesis by (simp add: a eq)
  qed
qed

lemma analyze_counter:
  assumes "fst (extract_features e p SR N_MFCC MAX_PAD_LEN (files st)) = Inr m"
    and "classify np_mean e m = Inr l"
    and "reads_as (emotion_file st) counts"
  shows "analyze_saved_file np_mean e p st =
           (Inr l,
            st\<lparr>files := snd (extract_features e p SR N_MFCC MAX_PAD_LEN (files st)),
               emotion_file :=
                 snd (write_json_safe e (emotion_file st)
                   (counter_json
                     (AList.update l (case map_of counts l of None \<Rightarrow> 1 | Some n \<Rightarrow> n + 1)
                        counts)))\<rparr>)"
proof -
  let ?st = "st\<lparr>files := snd (extract_features e p SR N_MFCC MAX_PAD_LEN (files st))\<rparr>"
  have r: "reads_as (emotion_file ?st) counts" using assms(3) by simp
  show ?thesis
    by (simp add: analyze_classified [OF assms(1,2)]
        update_emotion_analytics_counter [OF r])
qed

text \<open>
  C7. What \<open>analyze_saved_file\<close> returns does not depend on how the write of the
  counter file ends: with any outcome it returns what it returns when the write succeeds.
  So whenever extraction and classification give a label and the counter file reads as a
  counter mapping, the label is returned also when the write fails; a failed open leaves
  the file as it was and a failed dump leaves it unreadable, in both cases without the
  increment.
\<close>

theorem analytics_write_failure_harmless:
  "fst (analyze_saved_file np_mean (e\<lparr>json_write := w\<rparr>) p st)
     = fst (analyze_saved_file np_mean (e\<lparr>json_write := Written\<rparr>) p st)
   \<and> (fst (extract_features e p SR N_MFCC MAX_PAD_LEN (files st)) = Inr m
        \<and> classify np_mean e m = Inr l \<and> reads_as (emotion_file st) counts
      \<longrightarrow> fst (analyze_saved_file np_mean e p st) = Inr l
          \<and> (json_write e = OpenFailed \<longrightarrow>
                emotion_file (snd (analyze_saved_file np_mean e p st)) = emotion_file st)
          \<and> (json_write e = DumpFailed \<longrightarrow>
                emotion_file (snd (analyze_saved_file np_mean e p st)) = Unparseable))"
proof -
  have indep: "fst (analyze_saved_file np_mean (e\<lparr>json_write := w\<rparr>) p st)
     = fst (analyze_saved_file np_mean (e\<lparr>json_write := Written\<rparr>) p st)"
    by (rule analyze_fst_json_write)
  have ok: "fst (analyze_saved_file np_mean e p st) = Inr l
          \<and> (json_write e = OpenFailed \<longrightarrow>
                emotion_file (snd (analyze_saved_file np_mean e p st)) = emotion_file st)
          \<and> (json_write e = DumpFailed \<longrightarrow>
                emotion_file (snd (analyze_saved_file np_mean e p st)) = Unparseable)"
    if "fst (extract_features e p SR N_MFCC MAX_PAD_LEN (files st)) = Inr m"
      and "classify np_mean e m = Inr l" and "reads_as (emotion_file st) counts"
    by (simp add: analyze_counter [OF that] write_json_safe_def)
  from indep ok show ?thesis by blast
qed

lemma fix_length_sample:
  "fix_length \<lparr>shape0 = N_MFCC, shape1 = 1, rows = replicate N_MFCC [87 / 10]\<rparr> MAX_PAD_LEN
     = sample_features"
  by (simp add: fix_length_def np_pad_right_def N_MFCC_def MAX_PAD_LEN_def sample_features_def)

lemma sample_extract:
  "fst (extract_features sample_env p SR N_MFCC MAX_PAD_LEN fs) = Inr sample_features"
proof -
  have ne: "[1 / 2, 1 / 4] \<noteq> ([] :: real list)" by simp
  have "load_and_transform sample_env q SR N_MFCC MAX_PAD_LEN = Inr sample_features" for q
    by (simp only: load_and_transform_Inr [OF sample_load ne sample_mfcc_eq]
        fix_length_sample)
  then show ?thesis by (simp add: extract_features_fst)
qed

lemma sample_classify: "classify sample_np_mean sample_env sample_features = Inr ''fear''"
proof -
  have "fallback_index sample_np_mean sample_features = Inr 5"
    using fallback_index_rounded [where np_mean = sample_np_mean and a = sample_features,
        OF sample_features_mean round64_5] by simp
  from classify_fallback_index [OF sample_model this] show ?thesis by (simp add: labels_5)
qed

lemma readonly_extract:
  "fst (extract_features readonly_env p SR N_MFCC MAX_PAD_LEN fs) = Inr sample_features"
  by (simp add: readonly_env_def extract_features_json_write sample_extract)

lemma readonly_classify: "classify sample_np_mean readonly_env sample_features = Inr ''fear''"
  by (simp add: readonly_env_def classify_json_write sample_classify)

theorem analytics_write_failure_harmless_witness:
  "fst (extract_features readonly_env ''uploads/a.ogg'' SR N_MFCC MAX_PAD_LEN (files sample_state))
     = Inr sample_features
   \<and> classify sample_np_mean readonly_env sample_features = Inr ''fear''
   \<and> reads_as (emotion_file sample_state) []
   \<and> json_write readonly_env = OpenFailed
   \<and> fst (analyze_saved_file sample_np_mean readonly_env ''uploads/a.ogg'' sample_state) = Inr ''fear''
   \<and> emotion_file (snd (analyze_saved_file sample_np_mean readonly_env ''uploads/a.ogg'' sample_state)) = Missing"
proof -
  have r: "reads_as (emotion_file sample_state) []"
    by (simp add: sample_state_def reads_as_Missing)
  have w: "json_write readonly_env = OpenFailed" by (simp add: readonly_env_def)
  have m: "emotion_file sample_state = Missing" by (simp add: sample_state_def)
  from analytics_write_failure_harmless
    [where e = readonly_env and w = OpenFailed and p = "''uploads/a.ogg''"
       and st = sample_state and m = sample_features and l = "''fear''" and counts = "[]"]
    readonly_extract [of "''uploads/a.ogg''" "files sample_state"] readonly_classify r w m
  show ?thesis by simp
qed

lemma analyze_label:
  assumes "fst (analyze_saved_file np_mean e p st) = Inr l"
    and "fst (extract_features e p SR N_MFCC MAX_PAD_LEN (files st)) = Inr m"
  shows "classify np_mean e m = Inr l"
proof (cases "classify np_mean e m")
  case (Inl err)
  then show ?thesis using assms analyze_classify_error [OF assms(2) Inl] by simp
next
  case (Inr l')
  have "fst (analyze_saved_file np_mean e p st) = Inr l' \<or> (\<exists>err. fst (analyze_saved_file np_mean e p st) = Inl err)"
    by (simp add: analyze_classified [OF assms(2) Inr] split: prod.splits sum.splits)
  then show ?thesis using assms(1) Inr by auto
qed

lemma classify_no_model:
  "model e1 = None \<Longrightarrow> model e2 = None \<Longrightarrow> classify np_mean e1 m = classify np_mean e2 m"
  by (simp add: classify_def)

text \<open>
  C9. With no model loaded the label is a function of the array alone: two calls whose
  extraction gives the same array, in any two environments without a model and any two
  states (the second call may run in the state the first one left), classify it alike,
  and when both calls of \<open>analyze_saved_file\<close> return a label the two labels are equal.
\<close>

theorem fallback_deterministic:
  assumes "model e1 = None" and "model e2 = None"
    and "fst (extract_features e1 p1 SR N_MFCC MAX_PAD_LEN (files s1)) = Inr m"
    and "fst (extract_features e2 p2 SR N_MFCC MAX_PAD_LEN (files s2)) = Inr m"
  shows "classify np_mean e1 m = classify np_mean e2 m
         \<and> (\<forall>l1 l2. fst (analyze_saved_file np_mean e1 p1 s1) = Inr l1
                    \<and> fst (analyze_saved_file np_mean e2 p2 s2) = Inr l2 \<longrightarrow> l1 = l2)"
proof -
  have c: "classify np_mean e1 m = classify np_mean e2 m" using assms(1,2) by (rule classify_no_model)
  have "l1 = l2"
    if "fst (analyze_saved_file np_mean e1 p1 s1) = Inr l1" "fst (analyze_saved_file np_mean e2 p2 s2) = Inr l2"
    for l1 l2
    using analyze_label [OF that(1) assms(3)] analyze_label [OF that(2) assms(4)] c by simp
  with c show ?thesis by blast
qed

lemma sample_analyze:
  assumes "reads_as (emotion_file st) counts"
  shows "analyze_saved_file sample_np_mean sample_env p st =
           (Inr ''fear'',
            st\<lparr>files := snd (extract_features sample_env p SR N_MFCC MAX_PAD_LEN (files st)),
               emotion_file :=
                 Holds (counter_json
                   (AList.update ''fear''
                      (case map_of counts ''fear'' of None \<Rightarrow> 1 | Some n \<Rightarrow> n + 1) counts))\<rparr>)"
  by (simp add: analyze_counter [OF sample_extract sample_classify assms] write_json_safe_def
      sample_written)

theorem fallback_deterministic_witness:
  "model sample_env = None
   \<and> fst (extract_features sample_env ''uploads/a.ogg'' SR N_MFCC MAX_PAD_LEN (files sample_state))
       = Inr sample_features
   \<and> fst (extract_features sample_env ''uploads/a.ogg'' SR N_MFCC MAX_PAD_LEN
            (files (snd (analyze_saved_file sample_np_mean sample_env ''uploads/a.ogg'' sample_state))))
       = Inr sample_features
   \<and> fst (analyze_saved_file sample_np_mean sample_env ''uploads/a.ogg'' sample_state) = Inr ''fear''
   \<and> fst (analyze_saved_file sample_np_mean sample_env ''uploads/a.ogg''
            (snd (analyze_saved_file sample_np_mean sample_env ''uploads/a.ogg'' sample_state))) = Inr ''fear''"
proof -
  let ?p = "''uploads/a.ogg''"
  let ?s2 = "snd (analyze_saved_file sample_np_mean sample_env ?p sample_state)"
  have r: "reads_as (emotion_file sample_state) []"
    by (simp add: sample_state_def reads_as_Missing)
  have first: "fst (analyze_saved_file sample_np_mean sample_env ?p sample_state) = Inr ''fear''"
    by (simp add: sample_analyze [OF r])
  have r2: "reads_as (emotion_file ?s2) [(''fear'', 1)]"
    by (simp add: sample_analyze [OF r] reads_as_Holds)
  obtain l where second: "fst (analyze_saved_file sample_np_mean sample_env ?p ?s2) = Inr l"
    by (simp add: sample_analyze [OF r2])
  have x1: "fst (extract_features sample_env ?p SR N_MFCC MAX_PAD_LEN (files sample_state))
              = Inr sample_features"
    by (rule sample_extract)
  have x2: "fst (extract_features sample_env ?p SR N_MFCC MAX_PAD_LEN (files ?s2))
              = Inr sample_features"
    by (rule sample_extract)
  from fallback_deterministic [OF sample_model sample_model x1 x2] first second
  have "''fear'' = l" by blast
  with sample_model x1 x2 first second show ?thesis by simp
qed

subsection \<open>Conversion and cleanup\<close>

lemma no_pydub_convert:
  "\<not> pydub_available e \<Longrightarrow> convert_audio_to_wav e p fs = (None, fs)"
  by (simp add: convert_audio_to_wav_def)

lemma no_pydub_select: "\<not> pydub_available e \<Longrightarrow> select_source e p fs = (p, fs)"
  by (simp add: select_source_def no_pydub_convert Let_def)

lemma cleanup_same: "cleanup e p p fs = fs"
  by (simp add: cleanup_def)

lemma extract_features_pair:
  "extract_features e p sr n k fs =
     (load_and_transform e (fst (select_source e p fs)) sr n k,
      cleanup e (fst (select_source e p fs)) p (snd (select_source e p fs)))"
  by (simp add: prod_eq_iff extract_features_fst extract_features_snd)

text \<open>
  C6, as the code has it. When pydub cannot be imported, \<open>convert_audio_to_wav\<close>
  raises nothing and returns \<open>None\<close>, and \<open>extract_features\<close> goes on with the
  original, unconverted file: its result is the result of decoding and transforming that
  file, and no file is created or removed. The caller sees a failure only when that
  decoding or a later step raises, and then it is that error.
\<close>

theorem no_converter_falls_through:
  assumes "\<not> pydub_available e"
  shows "convert_audio_to_wav e p fs = (None, fs)
         \<and> extract_features e p sr n k fs = (load_and_transform e p sr n k, fs)"
  using assms
  by (simp add: no_pydub_convert extract_features_pair no_pydub_select cleanup_same)

lemma sample_transform:
  assumes "librosa_load e = librosa_load sample_env"
    and "librosa_mfcc e = librosa_mfcc sample_env"
  shows "load_and_transform e q SR N_MFCC MAX_PAD_LEN = Inr sample_features"
proof -
  have ne: "[1 / 2, 1 / 4] \<noteq> ([] :: real list)" by simp
  have l: "librosa_load e q SR = Inr ([1 / 2, 1 / 4], SR)"
    by (simp add: assms(1) sample_load)
  have c: "librosa_mfcc e [1 / 2, 1 / 4] SR N_MFCC
             = Inr \<lparr>shape0 = N_MFCC, shape1 = 1, rows = replicate N_MFCC [87 / 10]\<rparr>"
    by (simp only: assms(2) sample_mfcc_eq)
  show ?thesis
    by (simp only: load_and_transform_Inr [OF l ne c] fix_length_sample)
qed

lemma no_pydub_unavailable: "\<not> pydub_available no_pydub_env"
  by (simp add: no_pydub_env_def sample_env_def)

lemma no_pydub_transform:
  "load_and_transform no_pydub_env q SR N_MFCC MAX_PAD_LEN = Inr sample_features"
  by (rule sample_transform) (simp_all add: no_pydub_env_def)

lemma no_pydub_classify: "classify sample_np_mean no_pydub_env sample_features = Inr ''fear''"
proof -
  have "model no_pydub_env = None" by (simp add: no_pydub_env_def sample_env_def)
  moreover have "fallback_index sample_np_mean sample_features = Inr 5"
    using fallback_index_rounded [where np_mean = sample_np_mean and a = sample_features,
        OF sample_features_mean round64_5] by simp
  ultimately have "classify sample_np_mean no_pydub_env sample_features
                     = Inr (EMOTION_LABELS ! nat 5)"
    by (rule classify_fallback_index)
  then show ?thesis by (simp add: labels_5)
qed

theorem no_converter_falls_through_witness:
  "\<not> pydub_available no_pydub_env
   \<and> convert_audio_to_wav no_pydub_env ''uploads/a.ogg'' {''uploads/a.ogg''}
       = (None, {''uploads/a.ogg''})
   \<and> extract_features no_pydub_env ''uploads/a.ogg'' SR N_MFCC MAX_PAD_LEN {''uploads/a.ogg''}
       = (Inr sample_features, {''uploads/a.ogg''})"
  using no_converter_falls_through [OF no_pydub_unavailable, of "''uploads/a.ogg''"
      "{''uploads/a.ogg''}" SR N_MFCC MAX_PAD_LEN]
    no_pydub_unavailable
  by (simp add: no_pydub_transform)

text \<open>
  C6 as stated fails: for an ogg upload with pydub absent no failure is signalled; the
  unconverted file is decoded, an array is returned and \<open>analyze_saved_file\<close> returns
  a label.
\<close>

theorem no_converter_counterexample:
  "last (split_dot (lower ''uploads/a.ogg'')) = ''ogg''
   \<and> \<not> pydub_available no_pydub_env
   \<and> convert_audio_to_wav no_pydub_env ''uploads/a.ogg'' (files sample_state)
       = (None, files sample_state)
   \<and> fst (extract_features no_pydub_env ''uploads/a.ogg'' SR N_MFCC MAX_PAD_LEN
            (files sample_state)) = Inr sample_features
   \<and> fst (analyze_saved_file sample_np_mean no_pydub_env ''uploads/a.ogg'' sample_state) = Inr ''fear''"
proof -
  have r: "reads_as (emotion_file sample_state) []"
    by (simp add: sample_state_def reads_as_Missing)
  have x: "fst (extract_features no_pydub_env ''uploads/a.ogg'' SR N_MFCC MAX_PAD_LEN
            (files sample_state)) = Inr sample_features"
    by (simp add: extract_features_fst no_pydub_select [OF no_pydub_unavailable]
        no_pydub_transform)
  have a: "fst (analyze_saved_file sample_np_mean no_pydub_env ''uploads/a.ogg'' sample_state) = Inr ''fear''"
    by (simp add: analyze_counter [OF x no_pydub_classify r])
  from sample_ext no_pydub_unavailable no_pydub_convert [OF no_pydub_unavailable] x a
  show ?thesis by simp
qed

lemma rsplit_dot_head_decomp:
  assumes "CHR ''.'' \<in> set s"
  shows "\<exists>t. s = rsplit_dot_head s @ CHR ''.'' # t"
proof -
  let ?P = "\<lambda>c. c \<noteq> CHR ''.''"
  have "dropWhile ?P (rev s) \<noteq> []" using assms by simp
  moreover have "\<not> ?P (hd (dropWhile ?P (rev s)))"
    using calculation by (rule hd_dropWhile)
  ultimately have d: "dropWhile ?P (rev s) = CHR ''.'' # tl (dropWhile ?P (rev s))"
    by (cases "dropWhile ?P (rev s)") simp_all
  have "rev s = takeWhile ?P (rev s) @ dropWhile ?P (rev s)" by simp
  then have "rev s = takeWhile ?P (rev s) @ CHR ''.'' # tl (dropWhile ?P (rev s))"
    using d by simp
  then have "rev (rev s) = rev (takeWhile ?P (rev s) @ CHR ''.'' # tl (dropWhile ?P (rev s)))"
    by (rule arg_cong)
  then have "s = rev (tl (dropWhile ?P (rev s))) @ CHR ''.'' # rev (takeWhile ?P (rev s))"
    by simp
  then show ?thesis using assms by (auto simp: rsplit_dot_head_def)
qed

lemma wav_path_differs: "rsplit_dot_head p @ ''_converted.wav'' \<noteq> p"
proof (cases "CHR ''.'' \<in> set p")
  case True
  then obtain t where t: "p = rsplit_dot_head p @ CHR ''.'' # t"
    using rsplit_dot_head_decomp by blast
  show ?thesis
  proof
    assume "rsplit_dot_head p @ ''_converted.wav'' = p"
    then have "rsplit_dot_head p @ ''_converted.wav'' = rsplit_dot_head p @ CHR ''.'' # t"
      using t by simp
    then show False by simp
  qed
next
  case False
  then show ?thesis by (simp add: rsplit_dot_head_def)
qed

lemma convert_Some:
  assumes "convert_audio_to_wav e p fs = (Some cp, fs')"
  shows "cp = rsplit_dot_head p @ ''_converted.wav'' \<and> fs' = insert cp fs"
  using assms by (auto simp: convert_audio_to_wav_def Let_def split: if_splits)

lemma select_source_converted:
  assumes "last (split_dot (lower p)) \<in> {''webm'', ''mp4'', ''ogg''}"
    and "convert_audio_to_wav e p fs = (Some cp, fs')"
  shows "select_source e p fs = (cp, insert cp fs)"
proof -
  have c: "cp = rsplit_dot_head p @ ''_converted.wav''" and f: "fs' = insert cp fs"
    using convert_Some [OF assms(2)] by simp_all
  have "cp \<noteq> []" using c by simp
  then show ?thesis using assms f by (simp add: select_source_def Let_def)
qed

text \<open>
  C8, as the code has it. When the upload is a webm, mp4 or ogg file and
  \<open>convert_audio_to_wav\<close> returns the path of a converted file, that file exists, differs
  from the upload and is the one decoded; both exits of \<open>extract_features\<close> (an array
  returned, an error raised) try to remove it. After the call it is gone whenever
  \<open>os.remove\<close> succeeds, and no other file is touched; when \<open>os.remove\<close> fails the
  failure is passed over and the converted file stays.
\<close>

theorem converted_file_cleanup:
  assumes "last (split_dot (lower p)) \<in> {''webm'', ''mp4'', ''ogg''}"
    and "convert_audio_to_wav e p fs = (Some cp, fs')"
  shows "cp \<noteq> p \<and> cp \<in> fs'
         \<and> fst (extract_features e p sr n k fs) = load_and_transform e cp sr n k
         \<and> snd (extract_features e p sr n k fs)
             = (if os_remove e cp then fs - {cp} else insert cp fs)
         \<and> (os_remove e cp \<longrightarrow> cp \<notin> snd (extract_features e p sr n k fs))"
proof -
  have c: "cp = rsplit_dot_head p @ ''_converted.wav''" and f: "fs' = insert cp fs"
    using convert_Some [OF assms(2)] by simp_all
  have ne: "cp \<noteq> p" using c wav_path_differs by simp
  have s: "select_source e p fs = (cp, insert cp fs)"
    using assms by (rule select_source_converted)
  have files: "snd (extract_features e p sr n k fs)
             = (if os_remove e cp then fs - {cp} else insert cp fs)"
    using ne by (simp add: extract_features_snd s cleanup_def)
  have res: "fst (extract_features e p sr n k fs) = load_and_transform e cp sr n k"
    by (simp add: extract_features_fst s)
  from ne f files res show ?thesis by simp
qed

lemma sample_convert:
  assumes "pydub_available e" and "pydub_transcode e = (\<lambda>p fmt. True)"
  shows "convert_audio_to_wav e ''uploads/a.ogg'' fs
           = (Some ''uploads/a_converted.wav'', insert ''uploads/a_converted.wav'' fs)"
  using assms by (simp add: convert_audio_to_wav_def sample_head Let_def)

lemma undecodable_transform:
  "load_and_transform undecodable_env q sr n k = Inl LibraryError"
  by (simp add: load_and_transform_def undecodable_env_def)

theorem converted_file_cleanup_witness:
  "last (split_dot (lower ''uploads/a.ogg'')) = ''ogg''
   \<and> convert_audio_to_wav sample_env ''uploads/a.ogg'' {''uploads/a.ogg''}
       = (Some ''uploads/a_converted.wav'', {''uploads/a_converted.wav'', ''uploads/a.ogg''})
   \<and> os_remove sample_env ''uploads/a_converted.wav''
   \<and> extract_features sample_env ''uploads/a.ogg'' SR N_MFCC MAX_PAD_LEN {''uploads/a.ogg''}
       = (Inr sample_features, {''uploads/a.ogg''})
   \<and> convert_audio_to_wav undecodable_env ''uploads/a.ogg'' {''uploads/a.ogg''}
       = (Some ''uploads/a_converted.wav'', {''uploads/a_converted.wav'', ''uploads/a.ogg''})
   \<and> os_remove undecodable_env ''uploads/a_converted.wav''
   \<and> extract_features undecodable_env ''uploads/a.ogg'' SR N_MFCC MAX_PAD_LEN {''uploads/a.ogg''}
       = (Inl LibraryError, {''uploads/a.ogg''})"
proof -
  let ?p = "''uploads/a.ogg''" and ?w = "''uploads/a_converted.wav''"
  have x: "last (split_dot (lower ?p)) \<in> {''webm'', ''mp4'', ''ogg''}"
    by (simp add: sample_ext)
  have c1: "convert_audio_to_wav sample_env ?p {?p} = (Some ?w, {?w, ?p})"
    by (simp add: sample_convert sample_env_def)
  have c2: "convert_audio_to_wav undecodable_env ?p {?p} = (Some ?w, {?w, ?p})"
    by (simp add: sample_convert undecodable_env_def sample_env_def)
  have o1: "os_remove sample_env ?w" by (simp add: sample_env_def)
  have o2: "os_remove undecodable_env ?w" by (simp add: undecodable_env_def sample_env_def)
  have t1: "load_and_transform sample_env ?w SR N_MFCC MAX_PAD_LEN = Inr sample_features"
    by (rule sample_transform) simp_all
  note a = converted_file_cleanup [OF x c1, of SR N_MFCC MAX_PAD_LEN]
  note b = converted_file_cleanup [OF x c2, of SR N_MFCC MAX_PAD_LEN]
  have r1: "extract_features sample_env ?p SR N_MFCC MAX_PAD_LEN {?p}
              = (Inr sample_features, {?p})"
    using a o1 t1 by (simp add: prod_eq_iff)
  have r2: "extract_features undecodable_env ?p SR N_MFCC MAX_PAD_LEN {?p}
              = (Inl LibraryError, {?p})"
    using b o2 by (simp add: prod_eq_iff undecodable_transform)
  from sample_ext c1 c2 o1 o2 r1 r2 show ?thesis by simp
qed

text \<open>
  C8 as stated fails: when \<open>os.remove\<close> raises, lines 125 to 129 pass over the
  exception; extraction returns its array and the converted file is still there.
\<close>

theorem converted_file_left_counterexample:
  "last (split_dot (lower ''uploads/a.ogg'')) = ''ogg''
   \<and> convert_audio_to_wav locked_env ''uploads/a.ogg'' {''uploads/a.ogg''}
       = (Some ''uploads/a_converted.wav'', {''uploads/a_converted.wav'', ''uploads/a.ogg''})
   \<and> fst (extract_features locked_env ''uploads/a.ogg'' SR N_MFCC MAX_PAD_LEN {''uploads/a.ogg''})
       = Inr sample_features
   \<and> ''uploads/a_converted.wav''
       \<in> snd (extract_features locked_env ''uploads/a.ogg'' SR N_MFCC MAX_PAD_LEN
                {''uploads/a.ogg''})"
proof -
  let ?p = "''uploads/a.ogg''" and ?w = "''uploads/a_converted.wav''"
  have x: "last (split_dot (lower ?p)) \<in> {''webm'', ''mp4'', ''ogg''}"
    by (simp add: sample_ext)
  have c: "convert_audio_to_wav locked_env ?p {?p} = (Some ?w, {?w, ?p})"
    by (simp add: sample_convert locked_env_def sample_env_def)
  have s: "select_source locked_env ?p {?p} = (?w, {?w, ?p})"
    using select_source_converted [OF x c] by simp
  have o: "\<not> os_remove locked_env ?w" by (simp add: locked_env_def)
  have t: "load_and_transform locked_env ?w SR N_MFCC MAX_PAD_LEN = Inr sample_features"
    by (rule sample_transform) (simp_all add: locked_env_def)
  have r: "fst (extract_features locked_env ?p SR N_MFCC MAX_PAD_LEN {?p}) = Inr sample_features"
    by (simp add: extract_features_fst s t)
  have k: "?w \<in> snd (extract_features locked_env ?p SR N_MFCC MAX_PAD_LEN {?p})"
    by (simp add: extract_features_snd s cleanup_def o)
  from sample_ext c r k show ?thesis by simp
qed

end
